theory Spec2Isabelle
  imports Main "HOL-Library.Multiset" "HOL-Library.Sublist"
begin

section \<open>Strings\<close>

text \<open>
  A Python \<open>str\<close> is a sequence of Unicode code points. The corpus is Shan text
  (U+1000..U+109F, U+1A20..U+1AAF), which does not fit the 8-bit characters of HOL's
  \<open>string\<close>, so a string is a list of code points. \<open>lit\<close> turns an ASCII literal
  into such a string.
\<close>

type_synonym ustr = "nat list"

definition lit :: "string \<Rightarrow> ustr" where
  "lit s = map of_char s"

text \<open>
  \<open>str.isspace\<close>, which decides what \<open>str.strip()\<close>, \<open>str.split()\<close> and the
  \<open>\s\<close> class of \<open>re\<close> treat as whitespace: U+0009..U+000D, U+001C..U+0020, U+0085,
  U+00A0, U+1680, U+2000..U+200A, U+2028, U+2029, U+202F, U+205F, U+3000.
\<close>

definition isspace :: "nat \<Rightarrow> bool" where
  "isspace c \<longleftrightarrow>
     (9 \<le> c \<and> c \<le> 13) \<or> (28 \<le> c \<and> c \<le> 32) \<or> c = 133 \<or> c = 160 \<or> c = 5760 \<or>
     (8192 \<le> c \<and> c \<le> 8202) \<or> c = 8232 \<or> c = 8233 \<or> c = 8239 \<or> c = 8287 \<or> c = 12288"

text \<open>\<open>s.strip()\<close>: leading and trailing whitespace removed.\<close>

definition strip :: "ustr \<Rightarrow> ustr" where
  "strip s = rev (dropWhile isspace (rev (dropWhile isspace s)))"

text \<open>
  \<open>s.split()\<close>: the maximal runs of non-whitespace characters, in order. \<open>cur\<close> is the
  run being read, reversed.
\<close>

fun split_run :: "ustr \<Rightarrow> ustr \<Rightarrow> ustr list" where
  "split_run cur [] = (if cur = [] then [] else [rev cur])"
| "split_run cur (c # cs) =
     (if isspace c then (if cur = [] then split_run [] cs else rev cur # split_run [] cs)
      else split_run (c # cur) cs)"

definition split_whitespace :: "ustr \<Rightarrow> ustr list" where
  "split_whitespace s = split_run [] s"

text \<open>
  \<open>str.lower\<close> on ASCII letters. The filter takes the lowering function as a
  parameter, so what is proved about it holds for the full Unicode \<open>str.lower\<close>;
  this one evaluates the concrete examples.
\<close>

definition ascii_lower :: "ustr \<Rightarrow> ustr" where
  "ascii_lower s = map (\<lambda>c. if 65 \<le> c \<and> c \<le> 90 then c + 32 else c) s"

section \<open>The dictionary resource\<close>

text \<open>
  The resource is a JSON object, a Python \<open>dict\<close>: each of its keys may be missing, and
  so may each key of its \<open>metadata\<close> object. A missing key is \<open>None\<close>. The entries
  of \<open>words\<close> and \<open>syllables\<close> are objects with a string and an integer frequency.
\<close>

record word_entry =
  word :: ustr
  frequency :: int

record syllable_entry =
  syllable :: ustr
  frequency :: int

record metadata =
  total_words :: "int option"
  words_with_frequency :: "int option"
  total_syllables :: "int option"
  syllables_with_frequency :: "int option"
  phase :: "ustr option"
  source :: "ustr option"

record resource =
  metadata :: "metadata option"
  words :: "word_entry list option"
  syllables :: "syllable_entry list option"

datatype error = KeyError

section \<open>data\_verrified.py: the dictionary-membership filter\<close>

text \<open>
  The loop of \<open>filter_syllables_by_dictionary\<close> over \<open>json_data['syllables']\<close>: each
  entry is appended to \<open>filtered_syllables\<close> or to \<open>removed_syllables\<close>.
\<close>

fun partition_syllables ::
  "(ustr \<Rightarrow> ustr) \<Rightarrow> ustr set \<Rightarrow> syllable_entry list \<Rightarrow>
   syllable_entry list \<times> syllable_entry list \<Rightarrow> syllable_entry list \<times> syllable_entry list" where
  "partition_syllables lower dictionary_words [] (filtered, removed) = (filtered, removed)"
| "partition_syllables lower dictionary_words (syllable_entry # rest) (filtered, removed) =
     (if lower (syllable syllable_entry) \<in> dictionary_words
      then partition_syllables lower dictionary_words rest (filtered @ [syllable_entry], removed)
      else partition_syllables lower dictionary_words rest (filtered, removed @ [syllable_entry]))"

definition words_positive :: "word_entry list \<Rightarrow> int" where
  "words_positive ws = int (length (filter (\<lambda>e. word_entry.frequency e > 0) ws))"

definition syllables_positive :: "syllable_entry list \<Rightarrow> int" where
  "syllables_positive ss = int (length (filter (\<lambda>e. syllable_entry.frequency e > 0) ss))"

definition filter_syllables_by_dictionary ::
  "(ustr \<Rightarrow> ustr) \<Rightarrow> resource \<Rightarrow> ustr set \<Rightarrow> resource" where
  "filter_syllables_by_dictionary lower json_data dictionary_words =
     (case syllables json_data of
        None \<Rightarrow> json_data
      | Some syls \<Rightarrow>
          let (filtered_syllables, removed_syllables) =
                partition_syllables lower dictionary_words syls ([], []);
              json_data = json_data\<lparr>syllables := Some filtered_syllables\<rparr>
          in (case metadata json_data of
                None \<Rightarrow> json_data
              | Some md \<Rightarrow>
                  let total_words =
                        int (length (case words json_data of None \<Rightarrow> [] | Some ws \<Rightarrow> ws));
                      words_with_frequency =
                        (case words json_data of None \<Rightarrow> 0 | Some ws \<Rightarrow> words_positive ws);
                      total_syllables = int (length filtered_syllables);
                      syllables_with_frequency = syllables_positive filtered_syllables
                  in json_data\<lparr>metadata := Some (md\<lparr>
                       total_words := Some total_words,
                       words_with_frequency := Some words_with_frequency,
                       total_syllables := Some total_syllables,
                       syllables_with_frequency := Some syllables_with_frequency,
                       phase := Some (lit ''dictionary_filtered'')\<rparr>)\<rparr>))"

section \<open>dict\_convert.py: counters\<close>

text \<open>
  A \<open>collections.Counter\<close> is a \<open>dict\<close>, which keeps its keys in the order of their
  first insertion: an association list, each key once.
\<close>

type_synonym counter = "(ustr \<times> int) list"

text \<open>\<open>counter[key] += 1\<close>: a missing key counts as 0 and is inserted last.\<close>

fun counter_incr :: "ustr \<Rightarrow> counter \<Rightarrow> counter" where
  "counter_incr key [] = [(key, 1)]"
| "counter_incr key ((k, n) # rest) =
     (if k = key then (k, n + 1) # rest else (k, n) # counter_incr key rest)"

text \<open>\<open>counter.get(key, dflt)\<close>.\<close>

definition counter_get :: "counter \<Rightarrow> ustr \<Rightarrow> int \<Rightarrow> int" where
  "counter_get c key dflt = (case map_of c key of None \<Rightarrow> dflt | Some n \<Rightarrow> n)"

text \<open>
  \<open>list.sort(key=..., reverse=True)\<close> and \<open>sorted(..., key=..., reverse=True)\<close>: by
  descending key, and stable (with \<open>reverse=True\<close> too, elements with equal keys keep
  their order): an insertion sort by the negated key.
\<close>

definition sort_reverse :: "('a \<Rightarrow> int) \<Rightarrow> 'a list \<Rightarrow> 'a list" where
  "sort_reverse key xs = sort_key (\<lambda>x. - key x) xs"

text \<open>\<open>Counter.most_common()\<close> is \<open>sorted(self.items(), key=itemgetter(1), reverse=True)\<close>.\<close>

definition most_common :: "counter \<Rightarrow> (ustr \<times> int) list" where
  "most_common c = sort_reverse snd c"

section \<open>dict\_convert.py: the converter\<close>

text \<open>
  The fields of \<open>ShanDictionaryConverter\<close> that the pipeline reads or writes (the two
  paths belong to the file collaborators). A tokenizer or segmenter is \<open>None\<close> or a
  function of the external library, whose call may raise: then it yields \<open>None\<close>.
\<close>

record converter =
  tokenizer :: "(ustr \<Rightarrow> ustr list option) option"
  syllable_segmenter :: "(ustr \<Rightarrow> ustr list option) option"
  dictionary_words :: "ustr list"
  word_frequencies :: counter
  syllable_frequencies :: counter

definition converter_init :: converter where
  "converter_init = \<lparr>tokenizer = None, syllable_segmenter = None, dictionary_words = [],
           word_frequencies = [], syllable_frequencies = []\<rparr>"

text \<open>
  \<open>word_tokenize\<close> stands for the library's
  \<open>word_tokenize(text, engine="newmm", keep_whitespace=False)\<close>, and
  \<open>syllable_tokenize\<close> for its \<open>syllable_tokenize(word)\<close>. The two assignments cannot
  raise, so the \<open>except\<close> branch is never taken.
\<close>

definition initialize_shannlp ::
  "converter \<Rightarrow> (ustr \<Rightarrow> ustr list option) \<Rightarrow> (ustr \<Rightarrow> ustr list option) \<Rightarrow> converter" where
  "initialize_shannlp self word_tokenize syllable_tokenize =
     self\<lparr>tokenizer := Some word_tokenize, syllable_segmenter := Some syllable_tokenize\<rparr>"

text \<open>
  \<open>dict_file\<close> is what the file collaborator gives: the lines of the file, or \<open>None\<close>
  when the file does not exist or reading it raises.
\<close>

definition load_dictionary :: "converter \<Rightarrow> ustr list option \<Rightarrow> ustr list \<times> converter" where
  "load_dictionary self dict_file =
     (case dict_file of
        None \<Rightarrow> ([], self)
      | Some f \<Rightarrow>
          let words = map strip (filter (\<lambda>line. strip line \<noteq> []) f)
          in (words, self\<lparr>dictionary_words := words\<rparr>))"

definition create_basic_json :: "ustr list \<Rightarrow> resource" where
  "create_basic_json ws =
     \<lparr>metadata = Some \<lparr>total_words = Some (int (length ws)), words_with_frequency = None,
                        total_syllables = None, syllables_with_frequency = None,
                        phase = Some (lit ''basic_conversion''),
                        source = Some (lit ''dictionary.txt'')\<rparr>,
      words = Some (map (\<lambda>w. \<lparr>word = w, frequency = 0\<rparr>) ws),
      syllables = Some []\<rparr>"

text \<open>
  \<open>dataset\<close> is what the corpus collaborator gives: for each split its items, each a
  title and a content, or \<open>None\<close> when loading raises.
\<close>

definition load_shan_news_dataset :: "(ustr \<times> ustr) list list option \<Rightarrow> ustr list" where
  "load_shan_news_dataset dataset =
     (case dataset of
        None \<Rightarrow> []
      | Some splits \<Rightarrow> concat (map (\<lambda>items. concat (map (\<lambda>(title, content). [title, content]) items)) splits))"

text \<open>
  The fallback of \<open>tokenize_text\<close>: every character outside the two Shan ranges that is
  not whitespace becomes a space, and the text is split at whitespace.
\<close>

definition shan_char :: "nat \<Rightarrow> bool" where
  "shan_char c \<longleftrightarrow> (4096 \<le> c \<and> c \<le> 4255) \<or> (6688 \<le> c \<and> c \<le> 6831)"

definition fallback_tokenize :: "ustr \<Rightarrow> ustr list" where
  "fallback_tokenize text =
     (let cleaned_text = map (\<lambda>c. if shan_char c \<or> isspace c then c else 32) text;
          tokens = split_whitespace cleaned_text
      in map strip (filter (\<lambda>token. strip token \<noteq> []) tokens))"

definition tokenize_text :: "converter \<Rightarrow> ustr \<Rightarrow> ustr list" where
  "tokenize_text self text =
     (case tokenizer self of
        None \<Rightarrow> fallback_tokenize text
      | Some tk \<Rightarrow> (case tk text of Some tokens \<Rightarrow> tokens | None \<Rightarrow> fallback_tokenize text))"

definition segment_syllables :: "converter \<Rightarrow> ustr \<Rightarrow> ustr list" where
  "segment_syllables self w =
     (case syllable_segmenter self of
        None \<Rightarrow> (if w \<noteq> [] then [w] else [])
      | Some sg \<Rightarrow> (case sg w of Some syls \<Rightarrow> syls | None \<Rightarrow> (if w \<noteq> [] then [w] else [])))"

text \<open>
  The three nested loops of \<open>analyze_frequency\<close>, innermost first. The state is the
  pair of counters.
\<close>

fun count_syllables :: "ustr list \<Rightarrow> counter \<Rightarrow> counter" where
  "count_syllables [] syllable_counter = syllable_counter"
| "count_syllables (s # rest) syllable_counter =
     count_syllables rest (counter_incr s syllable_counter)"

fun count_tokens ::
  "converter \<Rightarrow> ustr set \<Rightarrow> ustr list \<Rightarrow> counter \<times> counter \<Rightarrow> counter \<times> counter" where
  "count_tokens self dict_word_set [] (word_counter, syllable_counter) =
     (word_counter, syllable_counter)"
| "count_tokens self dict_word_set (token # rest) (word_counter, syllable_counter) =
     (let word_counter =
            (if token \<in> dict_word_set then counter_incr token word_counter else word_counter);
          syls = segment_syllables self token;
          syllable_counter =
            count_syllables (if syls \<noteq> [] then syls else [token]) syllable_counter
      in count_tokens self dict_word_set rest (word_counter, syllable_counter))"

fun count_texts ::
  "converter \<Rightarrow> ustr set \<Rightarrow> ustr list \<Rightarrow> counter \<times> counter \<Rightarrow> counter \<times> counter" where
  "count_texts self dict_word_set [] counters = counters"
| "count_texts self dict_word_set (text # rest) counters =
     count_texts self dict_word_set rest
       (count_tokens self dict_word_set (tokenize_text self text) counters)"

definition analyze_frequency :: "converter \<Rightarrow> ustr list \<Rightarrow> counter \<times> counter" where
  "analyze_frequency self texts =
     count_texts self (set (dictionary_words self)) texts ([], [])"

text \<open>
  \<open>basic_json["words"]\<close> and \<open>basic_json["metadata"]\<close> raise \<open>KeyError\<close> on a resource
  without the key; the words are read first.
\<close>

definition update_json_with_frequencies ::
  "resource \<Rightarrow> counter \<Rightarrow> counter \<Rightarrow> error + resource" where
  "update_json_with_frequencies basic_json word_freq syllable_freq =
     (case words basic_json of
        None \<Rightarrow> Inl KeyError
      | Some ws \<Rightarrow>
          let ws = map (\<lambda>word_entry.
                     word_entry\<lparr>word_entry.frequency := counter_get word_freq (word word_entry) 0\<rparr>) ws;
              ws = sort_reverse word_entry.frequency ws
          in (case metadata basic_json of
                None \<Rightarrow> Inl KeyError
              | Some md \<Rightarrow>
                  Inr (basic_json\<lparr>
                    words := Some ws,
                    metadata := Some (md\<lparr>
                      phase := Some (lit ''frequency_analysis_complete''),
                      words_with_frequency := Some (words_positive ws),
                      total_syllables := Some (int (length syllable_freq))\<rparr>)\<rparr>)))"

definition generate_syllable_data :: "counter \<Rightarrow> syllable_entry list" where
  "generate_syllable_data syllable_freq =
     map (\<lambda>(s, freq). \<lparr>syllable = s, frequency = freq\<rparr>) (most_common syllable_freq)"

text \<open>
  \<open>run_conversion\<close>. The result is what is handed to \<open>save_json\<close>: \<open>None\<close> when the
  run returns before saving, and the converter as the run leaves it.
\<close>

definition run_conversion ::
  "converter \<Rightarrow> (ustr \<Rightarrow> ustr list option) \<Rightarrow> (ustr \<Rightarrow> ustr list option) \<Rightarrow>
   ustr list option \<Rightarrow> (ustr \<times> ustr) list list option \<Rightarrow> (error + resource option) \<times> converter" where
  "run_conversion self word_tokenize syllable_tokenize dict_file dataset =
     (let self = initialize_shannlp self word_tokenize syllable_tokenize;
          (ws, self) = load_dictionary self dict_file
      in if ws = [] then (Inr None, self)
         else
           let basic_json = create_basic_json ws;
               texts = load_shan_news_dataset dataset
           in if texts \<noteq> [] then
                let (word_freq, syllable_freq) = analyze_frequency self texts;
                    self = self\<lparr>word_frequencies := word_freq, syllable_frequencies := syllable_freq\<rparr>
                in (case update_json_with_frequencies basic_json word_freq syllable_freq of
                      Inl e \<Rightarrow> (Inl e, self)
                    | Inr basic_json \<Rightarrow>
                        let syllable_data = generate_syllable_data syllable_freq
                        in (Inr (Some (basic_json\<lparr>syllables := Some syllable_data\<rparr>)), self))
              else (Inr (Some basic_json), self))"

section \<open>Notions the properties are stated with\<close>

text \<open>The tokens of a corpus, in the order \<open>analyze_frequency\<close> meets them.\<close>

definition corpus_tokens :: "converter \<Rightarrow> ustr list \<Rightarrow> ustr list" where
  "corpus_tokens self texts = concat (map (tokenize_text self) texts)"

text \<open>
  The syllables \<open>analyze_frequency\<close> counts for one token: those of
  \<open>segment_syllables\<close>, or the token itself when there are none.
\<close>

definition token_syllables :: "converter \<Rightarrow> ustr \<Rightarrow> ustr list" where
  "token_syllables self token =
     (if segment_syllables self token \<noteq> [] then segment_syllables self token else [token])"

section \<open>Inputs of the examples\<close>

text \<open>
  A tokenizer and a segmenter in the place of the library's: the first splits at
  whitespace, the second cuts a word of more than three characters after the third and
  finds no syllable in a shorter one.
\<close>

definition example_tokenizer :: "ustr \<Rightarrow> ustr list option" where
  "example_tokenizer text = Some (split_whitespace text)"

definition example_segmenter :: "ustr \<Rightarrow> ustr list option" where
  "example_segmenter w = Some (if length w \<le> 3 then [] else [take 3 w, drop 3 w])"

definition example_metadata :: metadata where
  "example_metadata =
     \<lparr>total_words = Some 7, words_with_frequency = None, total_syllables = Some 3,
      syllables_with_frequency = None, phase = Some (lit ''frequency_analysis_complete''),
      source = Some (lit ''dictionary.txt'')\<rparr>"

definition example_words :: "word_entry list" where
  "example_words = [\<lparr>word = lit ''b'', frequency = 0\<rparr>, \<lparr>word = lit ''a'', frequency = 4\<rparr>]"

definition example_syllables :: "syllable_entry list" where
  "example_syllables =
     [\<lparr>syllable = lit ''Abc'', frequency = 5\<rparr>, \<lparr>syllable = lit ''xyz'', frequency = 2\<rparr>,
      \<lparr>syllable = lit ''b'', frequency = 0\<rparr>]"

definition example_resource :: resource where
  "example_resource =
     \<lparr>metadata = Some example_metadata, words = Some example_words,
      syllables = Some example_syllables\<rparr>"

definition example_dictionary :: "ustr set" where
  "example_dictionary = {lit ''abc'', lit ''b''}"

definition example_converter :: converter where
  "example_converter =
     \<lparr>tokenizer = Some example_tokenizer, syllable_segmenter = Some example_segmenter,
      dictionary_words = [lit ''man'', lit ''mankind''],
      word_frequencies = [], syllable_frequencies = []\<rparr>"

definition example_texts :: "ustr list" where
  "example_texts = [lit ''man man mankind'', lit ''kind  Man'']"

definition example_dict_file :: "ustr list option" where
  "example_dict_file = Some [lit ''man'', lit '' '', lit ''mankind '']"

definition example_dataset :: "(ustr \<times> ustr) list list option" where
  "example_dataset = Some [[(lit ''man man mankind'', lit ''kind  Man'')]]"

section \<open>The filter: what it computes\<close>

lemma partition_syllables_filter:
  "partition_syllables lw D xs (f, r) =
     (f @ filter (\<lambda>e. lw (syllable e) \<in> D) xs, r @ filter (\<lambda>e. lw (syllable e) \<notin> D) xs)"
  by (induction xs arbitrary: f r) auto

lemma filter_without_syllables:
  "syllables r = None \<Longrightarrow> filter_syllables_by_dictionary lw r D = r"
  by (simp add: filter_syllables_by_dictionary_def)

lemma filter_without_metadata:
  "syllables r = Some syls \<Longrightarrow> metadata r = None \<Longrightarrow>
   filter_syllables_by_dictionary lw r D =
     r\<lparr>syllables := Some (filter (\<lambda>e. lw (syllable e) \<in> D) syls)\<rparr>"
  by (simp add: filter_syllables_by_dictionary_def partition_syllables_filter)

lemma filter_with_metadata:
  "syllables r = Some syls \<Longrightarrow> metadata r = Some md \<Longrightarrow>
   filter_syllables_by_dictionary lw r D =
     r\<lparr>syllables := Some (filter (\<lambda>e. lw (syllable e) \<in> D) syls),
       metadata := Some (md\<lparr>
         total_words := Some (int (length (case words r of None \<Rightarrow> [] | Some ws \<Rightarrow> ws))),
         words_with_frequency := Some (case words r of None \<Rightarrow> 0 | Some ws \<Rightarrow> words_positive ws),
         total_syllables := Some (int (length (filter (\<lambda>e. lw (syllable e) \<in> D) syls))),
         syllables_with_frequency :=
           Some (syllables_positive (filter (\<lambda>e. lw (syllable e) \<in> D) syls)),
         phase := Some (lit ''dictionary_filtered'')\<rparr>)\<rparr>"
  by (simp add: filter_syllables_by_dictionary_def partition_syllables_filter Let_def)

section \<open>Counters and the frequency pass\<close>

lemma map_of_counter_incr:
  "map_of (counter_incr k c) k' =
     (if k' = k then Some (counter_get c k 0 + 1) else map_of c k')"
  by (induction c) (auto simp: counter_get_def)

lemma counter_get_incr:
  "counter_get (counter_incr k c) k' 0 = counter_get c k' 0 + (if k' = k then 1 else 0)"
  by (simp add: counter_get_def map_of_counter_incr)

lemma map_of_count_syllables:
  "map_of (count_syllables ks c) k =
     (if k \<in> set ks then Some (counter_get c k 0 + int (count_list ks k)) else map_of c k)"
proof (induction ks arbitrary: c)
  case Nil
  show ?case by simp
next
  case (Cons a ks)
  show ?case
    by (simp add: Cons.IH counter_get_incr map_of_counter_incr count_list_0_iff)
qed

lemma count_syllables_append:
  "count_syllables (xs @ ys) c = count_syllables ys (count_syllables xs c)"
  by (induction xs arbitrary: c) simp_all

lemma count_tokens_eq:
  "count_tokens self D toks (wc, sc) =
     (count_syllables (filter (\<lambda>t. t \<in> D) toks) wc,
      count_syllables (concat (map (token_syllables self) toks)) sc)"
  by (induction toks arbitrary: wc sc)
     (simp_all add: Let_def token_syllables_def count_syllables_append)

lemma count_texts_eq:
  "count_texts self D texts (wc, sc) =
     (count_syllables (filter (\<lambda>t. t \<in> D) (corpus_tokens self texts)) wc,
      count_syllables (concat (map (token_syllables self) (corpus_tokens self texts))) sc)"
  by (induction texts arbitrary: wc sc)
     (simp_all add: corpus_tokens_def count_tokens_eq count_syllables_append)

lemma analyze_frequency_eq:
  "analyze_frequency self texts =
     (count_syllables (filter (\<lambda>t. t \<in> set (dictionary_words self)) (corpus_tokens self texts)) [],
      count_syllables (concat (map (token_syllables self) (corpus_tokens self texts))) [])"
  by (simp add: analyze_frequency_def count_texts_eq)

lemma count_list_filter:
  "count_list (filter P xs) x = (if P x then count_list xs x else 0)"
  by (induction xs) auto

lemma word_counter_lookup:
  "map_of (fst (analyze_frequency self texts)) w =
     (if w \<in> set (dictionary_words self) \<and> w \<in> set (corpus_tokens self texts)
      then Some (int (count_list (corpus_tokens self texts) w)) else None)"
  by (simp add: analyze_frequency_eq map_of_count_syllables counter_get_def count_list_filter)

lemma syllable_counter_lookup:
  "map_of (snd (analyze_frequency self texts)) s =
     (if s \<in> set (concat (map (token_syllables self) (corpus_tokens self texts)))
      then Some (int (count_list (concat (map (token_syllables self) (corpus_tokens self texts))) s))
      else None)"
  by (simp add: analyze_frequency_eq map_of_count_syllables counter_get_def)

lemma word_counter_get:
  "counter_get (fst (analyze_frequency self texts)) w 0 =
     (if w \<in> set (dictionary_words self) then int (count_list (corpus_tokens self texts) w) else 0)"
  by (simp add: counter_get_def word_counter_lookup count_list_0_iff)

lemma keys_counter_incr:
  "map fst (counter_incr k c) = (if k \<in> fst ` set c then map fst c else map fst c @ [k])"
  by (induction c) force+

lemma distinct_counter_incr:
  "distinct (map fst c) \<Longrightarrow> distinct (map fst (counter_incr k c))"
  by (simp add: keys_counter_incr)

lemma distinct_count_syllables:
  "distinct (map fst c) \<Longrightarrow> distinct (map fst (count_syllables ks c))"
  by (induction ks arbitrary: c) (simp_all add: distinct_counter_incr)

lemma example_tokens:
  "corpus_tokens example_converter example_texts =
     [lit ''man'', lit ''man'', lit ''mankind'', lit ''kind'', lit ''Man'']"
  by (simp add: corpus_tokens_def example_converter_def example_texts_def tokenize_text_def
        example_tokenizer_def split_whitespace_def isspace_def lit_def)

section \<open>The descending stable sort\<close>

lemma sort_reverse_mset: "mset (sort_reverse key xs) = mset xs"
  by (simp add: sort_reverse_def)

lemma sort_reverse_set: "set (sort_reverse key xs) = set xs"
  by (simp add: sort_reverse_def)

lemma sort_reverse_length: "length (sort_reverse key xs) = length xs"
  by (simp add: sort_reverse_def)

lemma sort_reverse_descending:
  "sorted_wrt (\<lambda>a b. key a \<ge> key b) (sort_reverse key xs)"
proof -
  have "sorted (map (\<lambda>x. - key x) (sort_key (\<lambda>x. - key x) xs))"
    by (rule sorted_sort_key)
  then show ?thesis
    by (simp add: sort_reverse_def sorted_map)
qed

lemma sort_reverse_stable:
  "filter (\<lambda>x. key x = k) (sort_reverse key xs) = filter (\<lambda>x. key x = k) xs"
proof -
  have "filter (\<lambda>x. - key x = - k) (sort_key (\<lambda>x. - key x) xs) = filter (\<lambda>x. - key x = - k) xs"
    by (rule sort_key_stable)
  then show ?thesis by (simp add: sort_reverse_def)
qed

section \<open>The builder and the pipeline\<close>

lemma update_json_with_frequencies_eq:
  assumes "words r = Some ws" and "metadata r = Some md"
  shows "update_json_with_frequencies r wfreq sfreq =
     Inr (r\<lparr>words := Some (sort_reverse word_entry.frequency
                  (map (\<lambda>e. e\<lparr>word_entry.frequency := counter_get wfreq (word e) 0\<rparr>) ws)),
            metadata := Some (md\<lparr>
              phase := Some (lit ''frequency_analysis_complete''),
              words_with_frequency := Some (words_positive (sort_reverse word_entry.frequency
                  (map (\<lambda>e. e\<lparr>word_entry.frequency := counter_get wfreq (word e) 0\<rparr>) ws))),
              total_syllables := Some (int (length sfreq))\<rparr>)\<rparr>)"
  using assms by (simp add: update_json_with_frequencies_def Let_def)

lemma update_json_with_frequencies_error:
  "words r = None \<or> metadata r = None \<Longrightarrow> update_json_with_frequencies r wfreq sfreq = Inl KeyError"
  by (auto simp: update_json_with_frequencies_def Let_def split: option.splits)

lemma length_generate_syllable_data:
  "length (generate_syllable_data sfreq) = length sfreq"
  by (simp add: generate_syllable_data_def most_common_def sort_reverse_length)

lemma run_conversion_no_words:
  assumes "fst (load_dictionary (initialize_shannlp self wt st) f) = []"
  shows "fst (run_conversion self wt st f ds) = Inr None"
  using assms
  by (cases "load_dictionary (initialize_shannlp self wt st) f")
     (simp add: run_conversion_def Let_def)

lemma run_conversion_no_texts:
  assumes "fst (load_dictionary (initialize_shannlp self wt st) f) = ws" and "ws \<noteq> []"
    and "load_shan_news_dataset ds = []"
  shows "fst (run_conversion self wt st f ds) = Inr (Some (create_basic_json ws))"
  using assms
  by (cases "load_dictionary (initialize_shannlp self wt st) f")
     (simp add: run_conversion_def Let_def)

lemma run_conversion_texts:
  assumes "load_dictionary (initialize_shannlp self wt st) f = (ws, self')" and "ws \<noteq> []"
    and "load_shan_news_dataset ds = texts" and "texts \<noteq> []"
    and "analyze_frequency self' texts = (wfreq, sfreq)"
  shows "run_conversion self wt st f ds =
     (Inr (Some \<lparr>metadata = Some \<lparr>total_words = Some (int (length ws)),
                     words_with_frequency = Some (words_positive (sort_reverse word_entry.frequency
                        (map (\<lambda>w. \<lparr>word = w, frequency = counter_get wfreq w 0\<rparr>) ws))),
                     total_syllables = Some (int (length sfreq)),
                     syllables_with_frequency = None,
                     phase = Some (lit ''frequency_analysis_complete''),
                     source = Some (lit ''dictionary.txt'')\<rparr>,
                 words = Some (sort_reverse word_entry.frequency
                        (map (\<lambda>w. \<lparr>word = w, frequency = counter_get wfreq w 0\<rparr>) ws)),
                 syllables = Some (generate_syllable_data sfreq)\<rparr>),
      self'\<lparr>word_frequencies := wfreq, syllable_frequencies := sfreq\<rparr>)"
  using assms
  by (simp add: run_conversion_def Let_def create_basic_json_def
        update_json_with_frequencies_def comp_def)

lemma tokenize_text_frequencies:
  "tokenize_text (self\<lparr>word_frequencies := a, syllable_frequencies := b\<rparr>) =
   tokenize_text self"
  by (rule ext) (simp add: tokenize_text_def)

lemma corpus_tokens_frequencies [simp]:
  "corpus_tokens (self\<lparr>word_frequencies := a, syllable_frequencies := b\<rparr>) texts =
   corpus_tokens self texts"
  by (simp add: corpus_tokens_def tokenize_text_frequencies)

lemma load_dictionary_nonempty:
  assumes "fst (load_dictionary self f) \<noteq> []"
  shows "load_dictionary self f =
           (fst (load_dictionary self f), self\<lparr>dictionary_words := fst (load_dictionary self f)\<rparr>)"
  using assms by (cases f) (simp_all add: load_dictionary_def Let_def)

lemma run_conversion_empty_corpus:
  assumes "load_dictionary (initialize_shannlp self wt st) f = (ws, self')" and "ws \<noteq> []"
    and "load_shan_news_dataset ds = []"
  shows "run_conversion self wt st f ds = (Inr (Some (create_basic_json ws)), self')"
  using assms by (simp add: run_conversion_def Let_def)

lemma pipeline_frequencies:
  assumes ne: "fst (load_dictionary (initialize_shannlp self0 wt st) f) \<noteq> []"
  shows "\<exists>r self' es. run_conversion self0 wt st f ds = (Inr (Some r), self') \<and>
           words r = Some es \<and>
           list_all (\<lambda>e. word_entry.frequency e =
              int (count_list (corpus_tokens self' (load_shan_news_dataset ds)) (word e))) es"
proof -
  let ?ws = "fst (load_dictionary (initialize_shannlp self0 wt st) f)"
  let ?self2 = "(initialize_shannlp self0 wt st)\<lparr>dictionary_words := ?ws\<rparr>"
  let ?texts = "load_shan_news_dataset ds"
  have ld: "load_dictionary (initialize_shannlp self0 wt st) f = (?ws, ?self2)"
    using ne by (rule load_dictionary_nonempty)
  show ?thesis
  proof (cases "?texts = []")
    case True
    have "run_conversion self0 wt st f ds = (Inr (Some (create_basic_json ?ws)), ?self2)"
      using ld ne True by (rule run_conversion_empty_corpus)
    then show ?thesis
      by (simp add: True create_basic_json_def corpus_tokens_def list_all_iff)
  next
    case False
    obtain wfreq sfreq where af: "analyze_frequency ?self2 ?texts = (wfreq, sfreq)"
      by (cases "analyze_frequency ?self2 ?texts")
    have wfreq: "wfreq = fst (analyze_frequency ?self2 ?texts)"
      by (simp add: af)
    have "counter_get wfreq w 0 = int (count_list (corpus_tokens ?self2 ?texts) w)"
      if "w \<in> set ?ws" for w
      using that by (simp add: wfreq word_counter_get)
    then have "list_all (\<lambda>e. word_entry.frequency e =
              int (count_list (corpus_tokens ?self2 ?texts) (word e)))
            (sort_reverse word_entry.frequency
               (map (\<lambda>w. \<lparr>word = w, frequency = counter_get wfreq w 0\<rparr>) ?ws))"
      by (auto simp: list_all_iff sort_reverse_set)
    then show ?thesis
      by (simp add: run_conversion_texts[OF ld ne refl False af])
  qed
qed

lemma pipeline_counters:
  assumes ne: "fst (load_dictionary (initialize_shannlp self wt st) f) \<noteq> []"
    and texts: "load_shan_news_dataset ds \<noteq> []"
  shows "\<exists>r md es ss. fst (run_conversion self wt st f ds) = Inr (Some r) \<and>
           metadata r = Some md \<and> words r = Some es \<and> syllables r = Some ss \<and>
           total_words md = Some (int (length es)) \<and>
           words_with_frequency md = Some (words_positive es) \<and>
           total_syllables md = Some (int (length ss)) \<and>
           syllables_with_frequency md = None"
proof -
  let ?ws = "fst (load_dictionary (initialize_shannlp self wt st) f)"
  let ?self2 = "(initialize_shannlp self wt st)\<lparr>dictionary_words := ?ws\<rparr>"
  let ?texts = "load_shan_news_dataset ds"
  have ld: "load_dictionary (initialize_shannlp self wt st) f = (?ws, ?self2)"
    using ne by (rule load_dictionary_nonempty)
  obtain wfreq sfreq where af: "analyze_frequency ?self2 ?texts = (wfreq, sfreq)"
    by (cases "analyze_frequency ?self2 ?texts")
  show ?thesis
    by (simp add: run_conversion_texts[OF ld ne refl texts af] sort_reverse_length
          length_generate_syllable_data)
qed

section \<open>The metadata counters\<close>

text \<open>
  C1 as stated: after \<open>update_json_with_frequencies\<close> and after the filter,
  \<open>total_syllables\<close> is the length of \<open>syllables\<close> and \<open>syllables_with_frequency\<close>
  the number of syllable entries with a positive frequency, the builder recomputing all
  four counters. It fails for the builder. On the skeleton of the dictionary \<open>b\<close> and the
  counters of the corpus \<open>a\<close>, \<open>update_json_with_frequencies\<close> returns
  \<open>total_syllables = 1\<close> beside the empty \<open>syllables\<close> of the skeleton, and no
  \<open>syllables_with_frequency\<close>; the resource \<open>run_conversion\<close> saves for this
  input has one syllable of frequency 1 and still no \<open>syllables_with_frequency\<close>.
\<close>

theorem builder_syllable_counters_stale:
  "analyze_frequency (example_converter\<lparr>dictionary_words := [lit ''b'']\<rparr>) [lit ''a''] =
     ([], [(lit ''a'', 1)]) \<and>
   update_json_with_frequencies (create_basic_json [lit ''b'']) [] [(lit ''a'', 1)] =
     Inr \<lparr>metadata = Some \<lparr>total_words = Some 1, words_with_frequency = Some 0,
             total_syllables = Some 1, syllables_with_frequency = None,
             phase = Some (lit ''frequency_analysis_complete''),
             source = Some (lit ''dictionary.txt'')\<rparr>,
          words = Some [\<lparr>word = lit ''b'', frequency = 0\<rparr>],
          syllables = Some []\<rparr> \<and>
   (1::int) \<noteq> int (length ([] :: syllable_entry list)) \<and>
   fst (run_conversion converter_init example_tokenizer example_segmenter (Some [lit ''b''])
          (Some [[(lit ''a'', lit '''')]])) =
     Inr (Some \<lparr>metadata = Some \<lparr>total_words = Some 1, words_with_frequency = Some 0,
                    total_syllables = Some 1, syllables_with_frequency = None,
                    phase = Some (lit ''frequency_analysis_complete''),
                    source = Some (lit ''dictionary.txt'')\<rparr>,
                 words = Some [\<lparr>word = lit ''b'', frequency = 0\<rparr>],
                 syllables = Some [\<lparr>syllable = lit ''a'', frequency = 1\<rparr>]\<rparr>) \<and>
   (None :: int option) \<noteq> Some (syllables_positive [\<lparr>syllable = lit ''a'', frequency = 1\<rparr>])"
  by (simp add: run_conversion_def initialize_shannlp_def load_dictionary_def
        load_shan_news_dataset_def create_basic_json_def analyze_frequency_def tokenize_text_def
        segment_syllables_def update_json_with_frequencies_def generate_syllable_data_def
        most_common_def sort_reverse_def words_positive_def syllables_positive_def
        counter_get_def split_whitespace_def strip_def isspace_def lit_def Let_def
        example_converter_def example_tokenizer_def example_segmenter_def converter_init_def)

text \<open>
  C1, amended. On a resource with \<open>syllables\<close> and \<open>metadata\<close> the filter recomputes
  all four counters: \<open>total_syllables\<close> is the length of the resulting \<open>syllables\<close>,
  \<open>syllables_with_frequency\<close> the number of its entries with a positive frequency,
  \<open>total_words\<close> and \<open>words_with_frequency\<close> the same for \<open>words\<close>.
  On a resource with \<open>words\<close> and \<open>metadata\<close>, \<open>update_json_with_frequencies\<close>
  recomputes \<open>words_with_frequency\<close> from the re-scored words and sets
  \<open>total_syllables\<close> to the number of keys of the syllable counter; it leaves
  \<open>total_words\<close>, \<open>syllables_with_frequency\<close> and \<open>syllables\<close> as they were.
  After \<open>run_conversion\<close> on a non-empty dictionary and a non-empty corpus,
  \<open>total_words\<close>, \<open>words_with_frequency\<close> and \<open>total_syllables\<close> agree with the
  saved \<open>words\<close> and \<open>syllables\<close>, and \<open>syllables_with_frequency\<close> is absent.
\<close>

theorem metadata_counters:
  "(syllables r = Some syls \<longrightarrow> metadata r = Some md \<longrightarrow>
      (\<exists>md' ss. metadata (filter_syllables_by_dictionary lw r D) = Some md' \<and>
         syllables (filter_syllables_by_dictionary lw r D) = Some ss \<and>
         total_syllables md' = Some (int (length ss)) \<and>
         syllables_with_frequency md' = Some (syllables_positive ss) \<and>
         total_words md' =
           Some (int (length (case words (filter_syllables_by_dictionary lw r D) of
                                None \<Rightarrow> [] | Some ws \<Rightarrow> ws))) \<and>
         words_with_frequency md' =
           Some (case words (filter_syllables_by_dictionary lw r D) of
                   None \<Rightarrow> 0 | Some ws \<Rightarrow> words_positive ws))) \<and>
   (words b = Some es \<longrightarrow> metadata b = Some mdb \<longrightarrow>
      (\<exists>b' md' es'. update_json_with_frequencies b wfreq sfreq = Inr b' \<and>
         metadata b' = Some md' \<and> words b' = Some es' \<and>
         words_with_frequency md' = Some (words_positive es') \<and>
         total_syllables md' = Some (int (length sfreq)) \<and>
         total_words md' = total_words mdb \<and>
         syllables_with_frequency md' = syllables_with_frequency mdb \<and>
         syllables b' = syllables b)) \<and>
   (fst (load_dictionary (initialize_shannlp self wt st) f) \<noteq> [] \<longrightarrow>
    load_shan_news_dataset ds \<noteq> [] \<longrightarrow>
      (\<exists>p md' es' ss. fst (run_conversion self wt st f ds) = Inr (Some p) \<and>
         metadata p = Some md' \<and> words p = Some es' \<and> syllables p = Some ss \<and>
         total_words md' = Some (int (length es')) \<and>
         words_with_frequency md' = Some (words_positive es') \<and>
         total_syllables md' = Some (int (length ss)) \<and>
         syllables_with_frequency md' = None))"
proof (intro conjI impI)
  assume s: "syllables r = Some syls" and m: "metadata r = Some md"
  show "\<exists>md' ss. metadata (filter_syllables_by_dictionary lw r D) = Some md' \<and>
         syllables (filter_syllables_by_dictionary lw r D) = Some ss \<and>
         total_syllables md' = Some (int (length ss)) \<and>
         syllables_with_frequency md' = Some (syllables_positive ss) \<and>
         total_words md' =
           Some (int (length (case words (filter_syllables_by_dictionary lw r D) of
                                None \<Rightarrow> [] | Some ws \<Rightarrow> ws))) \<and>
         words_with_frequency md' =
           Some (case words (filter_syllables_by_dictionary lw r D) of
                   None \<Rightarrow> 0 | Some ws \<Rightarrow> words_positive ws)"
    by (simp add: filter_with_metadata[OF s m])
next
  assume w: "words b = Some es" and m: "metadata b = Some mdb"
  show "\<exists>b' md' es'. update_json_with_frequencies b wfreq sfreq = Inr b' \<and>
         metadata b' = Some md' \<and> words b' = Some es' \<and>
         words_with_frequency md' = Some (words_positive es') \<and>
         total_syllables md' = Some (int (length sfreq)) \<and>
         total_words md' = total_words mdb \<and>
         syllables_with_frequency md' = syllables_with_frequency mdb \<and>
         syllables b' = syllables b"
    by (simp add: update_json_with_frequencies_eq[OF w m])
next
  assume "fst (load_dictionary (initialize_shannlp self wt st) f) \<noteq> []"
    and "load_shan_news_dataset ds \<noteq> []"
  then show "\<exists>p md' es' ss. fst (run_conversion self wt st f ds) = Inr (Some p) \<and>
         metadata p = Some md' \<and> words p = Some es' \<and> syllables p = Some ss \<and>
         total_words md' = Some (int (length es')) \<and>
         words_with_frequency md' = Some (words_positive es') \<and>
         total_syllables md' = Some (int (length ss)) \<and>
         syllables_with_frequency md' = None"
    by (rule pipeline_counters)
qed

theorem metadata_counters_witness:
  "syllables example_resource = Some example_syllables \<and>
   metadata example_resource = Some example_metadata \<and>
   filter_syllables_by_dictionary ascii_lower example_resource example_dictionary =
     \<lparr>metadata = Some \<lparr>total_words = Some 2, words_with_frequency = Some 1,
                        total_syllables = Some 2, syllables_with_frequency = Some 1,
                        phase = Some (lit ''dictionary_filtered''),
                        source = Some (lit ''dictionary.txt'')\<rparr>,
      words = Some example_words,
      syllables = Some [\<lparr>syllable = lit ''Abc'', frequency = 5\<rparr>,
                        \<lparr>syllable = lit ''b'', frequency = 0\<rparr>]\<rparr> \<and>
   words example_resource = Some example_words \<and>
   update_json_with_frequencies example_resource [(lit ''b'', 3)] [(lit ''x'', 1), (lit ''y'', 1)] =
     Inr \<lparr>metadata = Some \<lparr>total_words = Some 7, words_with_frequency = Some 1,
             total_syllables = Some 2, syllables_with_frequency = None,
             phase = Some (lit ''frequency_analysis_complete''),
             source = Some (lit ''dictionary.txt'')\<rparr>,
          words = Some [\<lparr>word = lit ''b'', frequency = 3\<rparr>, \<lparr>word = lit ''a'', frequency = 0\<rparr>],
          syllables = Some example_syllables\<rparr> \<and>
   fst (load_dictionary (initialize_shannlp converter_init example_tokenizer example_segmenter)
          example_dict_file) \<noteq> [] \<and>
   load_shan_news_dataset example_dataset \<noteq> [] \<and>
   fst (run_conversion converter_init example_tokenizer example_segmenter example_dict_file
          example_dataset) =
     Inr (Some \<lparr>metadata = Some \<lparr>total_words = Some 2, words_with_frequency = Some 2,
                    total_syllables = Some 5, syllables_with_frequency = None,
                    phase = Some (lit ''frequency_analysis_complete''),
                    source = Some (lit ''dictionary.txt'')\<rparr>,
                 words = Some [\<lparr>word = lit ''man'', frequency = 2\<rparr>,
                               \<lparr>word = lit ''mankind'', frequency = 1\<rparr>],
                 syllables = Some [\<lparr>syllable = lit ''man'', frequency = 3\<rparr>,
                                   \<lparr>syllable = lit ''kind'', frequency = 1\<rparr>,
                                   \<lparr>syllable = lit ''kin'', frequency = 1\<rparr>,
                                   \<lparr>syllable = lit ''d'', frequency = 1\<rparr>,
                                   \<lparr>syllable = lit ''Man'', frequency = 1\<rparr>]\<rparr>)"
  using metadata_counters
    [of example_resource example_syllables example_metadata ascii_lower example_dictionary
        example_resource example_words example_metadata "[(lit ''b'', 3)]"
        "[(lit ''x'', 1), (lit ''y'', 1)]" converter_init example_tokenizer example_segmenter
        example_dict_file example_dataset]
  by (simp add: run_conversion_def initialize_shannlp_def load_dictionary_def
        load_shan_news_dataset_def create_basic_json_def analyze_frequency_def tokenize_text_def
        segment_syllables_def update_json_with_frequencies_def generate_syllable_data_def
        most_common_def sort_reverse_def words_positive_def syllables_positive_def
        counter_get_def split_whitespace_def strip_def isspace_def lit_def ascii_lower_def
        Let_def example_dict_file_def example_dataset_def example_tokenizer_def
        example_segmenter_def converter_init_def example_resource_def example_metadata_def
        example_words_def example_syllables_def example_dictionary_def filter_with_metadata)

section \<open>The skeleton\<close>

text \<open>
  C2 as stated: the skeleton has one entry per distinct word string, so no word string
  twice. It fails: \<open>create_basic_json\<close> makes an entry for every element of the list
  it is given, and the list \<open>a, a\<close> gives two entries for \<open>a\<close>.
\<close>

theorem create_basic_json_duplicates:
  "words (create_basic_json [lit ''a'', lit ''a'']) =
     Some [\<lparr>word = lit ''a'', frequency = 0\<rparr>, \<lparr>word = lit ''a'', frequency = 0\<rparr>] \<and>
   \<not> distinct (map word [\<lparr>word = lit ''a'', frequency = 0\<rparr>, \<lparr>word = lit ''a'', frequency = 0\<rparr>])"
  by (simp add: create_basic_json_def)

text \<open>
  C2, amended. The \<open>words\<close> of the skeleton hold one entry per element of the input
  list, in input order and with frequency 0, repeated strings included: the word strings
  of the entries are the input list itself, so they are free of duplicates exactly when
  the input list is.
\<close>

theorem create_basic_json_words:
  "\<exists>es. words (create_basic_json ws) = Some es \<and> map word es = ws \<and>
        map word_entry.frequency es = replicate (length ws) 0 \<and>
        (distinct (map word es) \<longleftrightarrow> distinct ws)"
  by (simp add: create_basic_json_def comp_def map_replicate_const)

section \<open>Membership tests and counts\<close>

text \<open>
  C3 as stated: every membership test against the dictionary set, in
  \<open>analyze_frequency\<close> as in the filter, is made on the lowercased string. It fails
  for \<open>analyze_frequency\<close>, which tests the token as it is: with the dictionary \<open>A\<close>
  the token \<open>A\<close> is counted although its lowercased form \<open>a\<close> is not in the set, and
  with the dictionary \<open>a\<close> the token \<open>A\<close> is not counted although its lowercased form
  is in the set.
\<close>

theorem word_gate_not_lowercased:
  "ascii_lower (lit ''A'') \<notin> set [lit ''A''] \<and>
   fst (analyze_frequency (example_converter\<lparr>dictionary_words := [lit ''A'']\<rparr>) [lit ''A'']) =
     [(lit ''A'', 1)] \<and>
   ascii_lower (lit ''A'') \<in> set [lit ''a''] \<and>
   fst (analyze_frequency (example_converter\<lparr>dictionary_words := [lit ''a'']\<rparr>) [lit ''A'']) = []"
  by (simp add: analyze_frequency_def tokenize_text_def segment_syllables_def
        split_whitespace_def isspace_def lit_def ascii_lower_def Let_def
        example_converter_def example_tokenizer_def example_segmenter_def)

text \<open>
  C3, amended. The filter tests the lowercased syllable string: it keeps exactly the
  entries whose lowered syllable is in the dictionary set. The word-count gate of
  \<open>analyze_frequency\<close> tests the token itself, case-sensitively: a string is a key
  of the word counter exactly when it is one of the dictionary words and occurs among the
  tokens of the corpus, and its count is then the number of its occurrences.
\<close>

theorem membership_tests:
  "(syllables r = Some syls \<longrightarrow>
      syllables (filter_syllables_by_dictionary lw r D) =
        Some (filter (\<lambda>e. lw (syllable e) \<in> D) syls)) \<and>
   map_of (fst (analyze_frequency self texts)) w =
     (if w \<in> set (dictionary_words self) \<and> w \<in> set (corpus_tokens self texts)
      then Some (int (count_list (corpus_tokens self texts) w)) else None)"
proof (intro conjI impI)
  assume s: "syllables r = Some syls"
  show "syllables (filter_syllables_by_dictionary lw r D) =
        Some (filter (\<lambda>e. lw (syllable e) \<in> D) syls)"
  proof (cases "metadata r")
    case None
    show ?thesis by (simp add: filter_without_metadata[OF s None])
  next
    case (Some md)
    show ?thesis by (simp add: filter_with_metadata[OF s Some])
  qed
next
  show "map_of (fst (analyze_frequency self texts)) w =
     (if w \<in> set (dictionary_words self) \<and> w \<in> set (corpus_tokens self texts)
      then Some (int (count_list (corpus_tokens self texts) w)) else None)"
    by (rule word_counter_lookup)
qed

theorem membership_tests_witness:
  "syllables example_resource = Some example_syllables \<and>
   syllables (filter_syllables_by_dictionary ascii_lower example_resource example_dictionary) =
     Some [\<lparr>syllable = lit ''Abc'', frequency = 5\<rparr>, \<lparr>syllable = lit ''b'', frequency = 0\<rparr>] \<and>
   map_of (fst (analyze_frequency example_converter example_texts)) (lit ''Man'') = None \<and>
   map_of (fst (analyze_frequency example_converter example_texts)) (lit ''man'') = Some 2"
  using membership_tests
    [of example_resource example_syllables ascii_lower example_dictionary
        example_converter example_texts "lit ''Man''"]
    membership_tests
    [of example_resource example_syllables ascii_lower example_dictionary
        example_converter example_texts "lit ''man''"]
  by (simp add: example_tokens)
     (simp add: example_converter_def example_resource_def example_syllables_def
        example_dictionary_def lit_def ascii_lower_def)

text \<open>
  C4. After \<open>analyze_frequency\<close> the count of a string in the word counter is the number
  of its occurrences among the tokens of the corpus when it is a dictionary word, and 0
  otherwise; the count of a string in the syllable counter is the number of its
  occurrences among the syllables of all tokens, dictionary words or not, where a token
  without syllables counts as its own single syllable. A run of the pipeline on a
  non-empty dictionary saves a resource, and the frequency of each of its word entries is
  the number of occurrences of its word string among the tokens of the corpus.
\<close>

theorem analyze_frequency_counts:
  "counter_get (fst (analyze_frequency self texts)) w 0 =
     (if w \<in> set (dictionary_words self)
      then int (count_list (corpus_tokens self texts) w) else 0) \<and>
   counter_get (snd (analyze_frequency self texts)) s 0 =
     int (count_list (concat (map (token_syllables self) (corpus_tokens self texts))) s) \<and>
   (fst (load_dictionary (initialize_shannlp self0 wt st) f) \<noteq> [] \<longrightarrow>
     (\<exists>r self' es. run_conversion self0 wt st f ds = (Inr (Some r), self') \<and>
        words r = Some es \<and>
        list_all (\<lambda>e. word_entry.frequency e =
           int (count_list (corpus_tokens self' (load_shan_news_dataset ds)) (word e))) es))"
proof -
  have "counter_get (snd (analyze_frequency self texts)) s 0 =
     int (count_list (concat (map (token_syllables self) (corpus_tokens self texts))) s)"
    by (simp add: counter_get_def syllable_counter_lookup count_list_0_iff del: set_concat)
  then show ?thesis
    using word_counter_get pipeline_frequencies by blast
qed

theorem analyze_frequency_counts_witness:
  "counter_get (fst (analyze_frequency example_converter example_texts)) (lit ''man'') 0 = 2 \<and>
   counter_get (snd (analyze_frequency example_converter example_texts)) (lit ''man'') 0 = 3 \<and>
   fst (load_dictionary (initialize_shannlp converter_init example_tokenizer example_segmenter)
          example_dict_file) \<noteq> [] \<and>
   fst (run_conversion converter_init example_tokenizer example_segmenter example_dict_file
          example_dataset) =
     Inr (Some \<lparr>metadata = Some \<lparr>total_words = Some 2, words_with_frequency = Some 2,
                    total_syllables = Some 5, syllables_with_frequency = None,
                    phase = Some (lit ''frequency_analysis_complete''),
                    source = Some (lit ''dictionary.txt'')\<rparr>,
                 words = Some [\<lparr>word = lit ''man'', frequency = 2\<rparr>,
                               \<lparr>word = lit ''mankind'', frequency = 1\<rparr>],
                 syllables = Some [\<lparr>syllable = lit ''man'', frequency = 3\<rparr>,
                                   \<lparr>syllable = lit ''kind'', frequency = 1\<rparr>,
                                   \<lparr>syllable = lit ''kin'', frequency = 1\<rparr>,
                                   \<lparr>syllable = lit ''d'', frequency = 1\<rparr>,
                                   \<lparr>syllable = lit ''Man'', frequency = 1\<rparr>]\<rparr>)"
  using analyze_frequency_counts
    [of example_converter example_texts "lit ''man''" "lit ''man''" converter_init
        example_tokenizer example_segmenter example_dict_file example_dataset]
  apply (simp add: example_tokens)
  apply (simp add: example_converter_def example_texts_def example_dict_file_def
        example_dataset_def example_tokenizer_def example_segmenter_def converter_init_def
        run_conversion_def initialize_shannlp_def load_dictionary_def load_shan_news_dataset_def
        create_basic_json_def analyze_frequency_def tokenize_text_def segment_syllables_def
        update_json_with_frequencies_def generate_syllable_data_def most_common_def
        sort_reverse_def words_positive_def counter_get_def token_syllables_def
        split_whitespace_def strip_def isspace_def lit_def Let_def)
  done

section \<open>Applying the frequencies\<close>

text \<open>
  C5. On a resource with \<open>words\<close> and \<open>metadata\<close>, \<open>update_json_with_frequencies\<close>
  returns a resource in which every word entry has the frequency
  \<open>word_frequencies.get(word, 0)\<close>, the entries are in descending order of frequency,
  the entries of equal frequency are in their original relative order, and the word
  strings are those of the input with the same multiplicities: none added, none removed.
\<close>

theorem update_json_with_frequencies_words:
  assumes "words r = Some ws" and "metadata r = Some md"
  shows "\<exists>r' ws'. update_json_with_frequencies r wfreq sfreq = Inr r' \<and> words r' = Some ws' \<and>
           list_all (\<lambda>e. word_entry.frequency e = counter_get wfreq (word e) 0) ws' \<and>
           sorted_wrt (\<lambda>a b. word_entry.frequency a \<ge> word_entry.frequency b) ws' \<and>
           (\<forall>k. map word (filter (\<lambda>e. word_entry.frequency e = k) ws') =
                 map word (filter (\<lambda>e. counter_get wfreq (word e) 0 = k) ws)) \<and>
           mset (map word ws') = mset (map word ws) \<and> length ws' = length ws"
proof -
  let ?u = "map (\<lambda>e. e\<lparr>word_entry.frequency := counter_get wfreq (word e) 0\<rparr>) ws"
  let ?s = "sort_reverse word_entry.frequency ?u"
  have "list_all (\<lambda>e. word_entry.frequency e = counter_get wfreq (word e) 0) ?s"
    by (simp add: list_all_iff sort_reverse_set)
  moreover have "sorted_wrt (\<lambda>a b. word_entry.frequency a \<ge> word_entry.frequency b) ?s"
    by (rule sort_reverse_descending)
  moreover have "map word (filter (\<lambda>e. word_entry.frequency e = k) ?s) =
                 map word (filter (\<lambda>e. counter_get wfreq (word e) 0 = k) ws)" for k
    by (simp add: sort_reverse_stable filter_map comp_def)
  moreover have "mset (map word ?s) = mset (map word ws)"
  proof -
    have "mset (map word ?s) = image_mset word (mset ?s)" by simp
    also have "\<dots> = image_mset word (mset ?u)" by (simp only: sort_reverse_mset)
    also have "\<dots> = mset (map word ws)" by (simp add: comp_def multiset.map_comp)
    finally show ?thesis .
  qed
  moreover have "length ?s = length ws"
    by (simp add: sort_reverse_length)
  ultimately show ?thesis
    by (simp add: update_json_with_frequencies_eq[OF assms])
qed

theorem update_json_with_frequencies_words_witness:
  "words (create_basic_json [lit ''w'', lit ''x'', lit ''y'', lit ''z'']) =
     Some [\<lparr>word = lit ''w'', frequency = 0\<rparr>, \<lparr>word = lit ''x'', frequency = 0\<rparr>,
           \<lparr>word = lit ''y'', frequency = 0\<rparr>, \<lparr>word = lit ''z'', frequency = 0\<rparr>] \<and>
   metadata (create_basic_json [lit ''w'', lit ''x'', lit ''y'', lit ''z'']) =
     Some \<lparr>total_words = Some 4, words_with_frequency = None, total_syllables = None,
           syllables_with_frequency = None, phase = Some (lit ''basic_conversion''),
           source = Some (lit ''dictionary.txt'')\<rparr> \<and>
   update_json_with_frequencies (create_basic_json [lit ''w'', lit ''x'', lit ''y'', lit ''z''])
       [(lit ''z'', 2), (lit ''x'', 2), (lit ''q'', 9)] [] =
     Inr \<lparr>metadata = Some \<lparr>total_words = Some 4, words_with_frequency = Some 2,
             total_syllables = Some 0, syllables_with_frequency = None,
             phase = Some (lit ''frequency_analysis_complete''),
             source = Some (lit ''dictionary.txt'')\<rparr>,
          words = Some [\<lparr>word = lit ''x'', frequency = 2\<rparr>, \<lparr>word = lit ''z'', frequency = 2\<rparr>,
                        \<lparr>word = lit ''w'', frequency = 0\<rparr>, \<lparr>word = lit ''y'', frequency = 0\<rparr>],
          syllables = Some []\<rparr>"
  using update_json_with_frequencies_words
    [of "create_basic_json [lit ''w'', lit ''x'', lit ''y'', lit ''z'']"
        "[\<lparr>word = lit ''w'', frequency = 0\<rparr>, \<lparr>word = lit ''x'', frequency = 0\<rparr>,
          \<lparr>word = lit ''y'', frequency = 0\<rparr>, \<lparr>word = lit ''z'', frequency = 0\<rparr>]"
        "\<lparr>total_words = Some 4, words_with_frequency = None, total_syllables = None,
           syllables_with_frequency = None, phase = Some (lit ''basic_conversion''),
           source = Some (lit ''dictionary.txt'')\<rparr>"
        "[(lit ''z'', 2), (lit ''x'', 2), (lit ''q'', 9)]" "[]"]
  by (simp add: create_basic_json_def update_json_with_frequencies_def sort_reverse_def
        words_positive_def counter_get_def lit_def Let_def)

section \<open>The filter: idempotence\<close>

text \<open>
  C6. Filtering twice with the same dictionary set gives the resource that filtering once
  gives, for every resource (with or without \<open>syllables\<close>, with or without
  \<open>metadata\<close>), every dictionary set and every lowering function.
\<close>

theorem filter_idempotent:
  "filter_syllables_by_dictionary lw (filter_syllables_by_dictionary lw r D) D =
   filter_syllables_by_dictionary lw r D"
proof (cases "syllables r")
  case None
  then show ?thesis by (simp add: filter_without_syllables)
next
  case (Some syls)
  note syls = this
  show ?thesis
  proof (cases "metadata r")
    case None
    let ?k = "filter (\<lambda>e. lw (syllable e) \<in> D) syls"
    let ?r1 = "r\<lparr>syllables := Some ?k\<rparr>"
    have 1: "filter_syllables_by_dictionary lw r D = ?r1"
      using syls None by (rule filter_without_metadata)
    have "filter_syllables_by_dictionary lw ?r1 D =
            ?r1\<lparr>syllables := Some (filter (\<lambda>e. lw (syllable e) \<in> D) ?k)\<rparr>"
      by (rule filter_without_metadata) (simp_all add: None)
    then show ?thesis by (simp add: 1)
  next
    case (Some md)
    let ?k = "filter (\<lambda>e. lw (syllable e) \<in> D) syls"
    let ?md1 = "md\<lparr>
         total_words := Some (int (length (case words r of None \<Rightarrow> [] | Some ws \<Rightarrow> ws))),
         words_with_frequency := Some (case words r of None \<Rightarrow> 0 | Some ws \<Rightarrow> words_positive ws),
         total_syllables := Some (int (length ?k)),
         syllables_with_frequency := Some (syllables_positive ?k),
         phase := Some (lit ''dictionary_filtered'')\<rparr>"
    let ?r1 = "r\<lparr>syllables := Some ?k, metadata := Some ?md1\<rparr>"
    have 1: "filter_syllables_by_dictionary lw r D = ?r1"
      using syls Some by (rule filter_with_metadata)
    have s1: "syllables ?r1 = Some ?k" and m1: "metadata ?r1 = Some ?md1"
      by simp_all
    have 2: "filter_syllables_by_dictionary lw ?r1 D = ?r1"
      by (subst filter_with_metadata[OF s1 m1]) simp
    show ?thesis by (simp only: 1 2)
  qed
qed

section \<open>The empty corpus\<close>

text \<open>
  C7. When the dictionary file gives a non-empty word list and the corpus gives no text,
  \<open>run_conversion\<close> saves the skeleton of the word list as it is, without an error:
  its phase is \<open>basic_conversion\<close>, its \<open>syllables\<close> are empty, and its entries are
  the words with frequency 0.
\<close>

theorem empty_corpus_keeps_skeleton:
  assumes "fst (load_dictionary (initialize_shannlp self wt st) f) = ws" and "ws \<noteq> []"
    and "load_shan_news_dataset ds = []"
  shows "\<exists>r md es. fst (run_conversion self wt st f ds) = Inr (Some r) \<and>
           r = create_basic_json ws \<and>
           metadata r = Some md \<and> phase md = Some (lit ''basic_conversion'') \<and>
           syllables r = Some [] \<and>
           words r = Some es \<and> map word es = ws \<and>
           map word_entry.frequency es = replicate (length ws) 0"
  by (simp add: run_conversion_no_texts[OF assms] create_basic_json_def comp_def
        map_replicate_const)

theorem empty_corpus_keeps_skeleton_witness:
  "fst (load_dictionary (initialize_shannlp converter_init example_tokenizer example_segmenter)
         (Some [lit ''man'', lit '' '', lit ''mankind ''])) = [lit ''man'', lit ''mankind''] \<and>
   [lit ''man'', lit ''mankind''] \<noteq> [] \<and>
   load_shan_news_dataset (Some [[], []]) = [] \<and>
   fst (run_conversion converter_init example_tokenizer example_segmenter
         (Some [lit ''man'', lit '' '', lit ''mankind '']) (Some [[], []])) =
     Inr (Some \<lparr>metadata = Some \<lparr>total_words = Some 2, words_with_frequency = None,
                    total_syllables = None, syllables_with_frequency = None,
                    phase = Some (lit ''basic_conversion''),
                    source = Some (lit ''dictionary.txt'')\<rparr>,
                 words = Some [\<lparr>word = lit ''man'', frequency = 0\<rparr>,
                               \<lparr>word = lit ''mankind'', frequency = 0\<rparr>],
                 syllables = Some []\<rparr>)"
proof -
  have 1: "fst (load_dictionary (initialize_shannlp converter_init example_tokenizer example_segmenter)
         (Some [lit ''man'', lit '' '', lit ''mankind ''])) = [lit ''man'', lit ''mankind'']"
    by (simp add: load_dictionary_def Let_def lit_def strip_def isspace_def)
  have 2: "[lit ''man'', lit ''mankind''] \<noteq> []" by simp
  have 3: "load_shan_news_dataset (Some [[], []]) = []"
    by (simp add: load_shan_news_dataset_def)
  show ?thesis
    using empty_corpus_keeps_skeleton[OF 1 2 3] 1 2 3
    by (simp add: create_basic_json_def)
qed

section \<open>The filter: missing fields and frame\<close>

text \<open>
  C8. A resource without a \<open>syllables\<close> key is returned as it is: every field,
  the metadata and its phase included, is unchanged, and nothing is raised.
\<close>

theorem filter_missing_syllables_noop:
  "syllables r = None \<Longrightarrow> filter_syllables_by_dictionary lw r D = r"
  by (rule filter_without_syllables)

theorem filter_missing_syllables_noop_witness:
  "syllables (example_resource\<lparr>syllables := None\<rparr>) = None \<and>
   filter_syllables_by_dictionary ascii_lower (example_resource\<lparr>syllables := None\<rparr>)
     example_dictionary = example_resource\<lparr>syllables := None\<rparr>"
  using filter_missing_syllables_noop
    [of "example_resource\<lparr>syllables := None\<rparr>" ascii_lower example_dictionary]
  by simp

text \<open>
  C9. On a resource with a \<open>syllables\<close> field the filter leaves \<open>words\<close> as it
  is (same entries, same order, same frequencies). Only \<open>syllables\<close> and
  \<open>metadata\<close> can differ from the input, and the new \<open>syllables\<close> are the entries whose
  lowered syllable is in the dictionary set, each unchanged, in their original
  relative order.
\<close>

theorem filter_frame:
  assumes "syllables r = Some syls"
  shows "words (filter_syllables_by_dictionary lw r D) = words r \<and>
         syllables (filter_syllables_by_dictionary lw r D) =
           Some (filter (\<lambda>e. lw (syllable e) \<in> D) syls) \<and>
         subseq (filter (\<lambda>e. lw (syllable e) \<in> D) syls) syls \<and>
         filter_syllables_by_dictionary lw r D =
           r\<lparr>syllables := Some (filter (\<lambda>e. lw (syllable e) \<in> D) syls),
             metadata := metadata (filter_syllables_by_dictionary lw r D)\<rparr>"
proof (cases "metadata r")
  case None
  show ?thesis
    by (simp add: filter_without_metadata[OF assms None] None [symmetric])
next
  case (Some md)
  show ?thesis
    by (simp add: filter_with_metadata[OF assms Some])
qed

theorem filter_frame_witness:
  "syllables example_resource = Some example_syllables \<and>
   words (filter_syllables_by_dictionary ascii_lower example_resource example_dictionary) =
     Some [\<lparr>word = lit ''b'', frequency = 0\<rparr>, \<lparr>word = lit ''a'', frequency = 4\<rparr>] \<and>
   syllables (filter_syllables_by_dictionary ascii_lower example_resource example_dictionary) =
     Some [\<lparr>syllable = lit ''Abc'', frequency = 5\<rparr>, \<lparr>syllable = lit ''b'', frequency = 0\<rparr>]"
  using filter_frame [of example_resource example_syllables ascii_lower example_dictionary]
  by (simp add: example_resource_def example_syllables_def example_words_def
        example_dictionary_def lit_def ascii_lower_def)

text \<open>
  C10. On a resource with a \<open>syllables\<close> field and no \<open>metadata\<close> field the filter
  replaces \<open>syllables\<close> by the entries whose lowered syllable is in the dictionary set
  and changes nothing else: the result has no \<open>metadata\<close>, so no counter and no
  phase.
\<close>

theorem filter_missing_metadata:
  assumes "syllables r = Some syls" and "metadata r = None"
  shows "filter_syllables_by_dictionary lw r D =
           r\<lparr>syllables := Some (filter (\<lambda>e. lw (syllable e) \<in> D) syls)\<rparr> \<and>
         metadata (filter_syllables_by_dictionary lw r D) = None"
  by (simp add: filter_without_metadata[OF assms] assms(2))

theorem filter_missing_metadata_witness:
  "syllables (example_resource\<lparr>metadata := None\<rparr>) = Some example_syllables \<and>
   metadata (example_resource\<lparr>metadata := None\<rparr>) = None \<and>
   filter_syllables_by_dictionary ascii_lower (example_resource\<lparr>metadata := None\<rparr>)
     example_dictionary =
     \<lparr>metadata = None, words = Some example_words,
      syllables = Some [\<lparr>syllable = lit ''Abc'', frequency = 5\<rparr>,
                        \<lparr>syllable = lit ''b'', frequency = 0\<rparr>]\<rparr> \<and>
   metadata (filter_syllables_by_dictionary ascii_lower (example_resource\<lparr>metadata := None\<rparr>)
     example_dictionary) = None"
  using filter_missing_metadata
    [of "example_resource\<lparr>metadata := None\<rparr>" example_syllables ascii_lower example_dictionary]
  by (simp add: example_resource_def example_syllables_def example_dictionary_def lit_def
        ascii_lower_def)

end
